theory Spec2Isabelle
  imports Main
begin

section \<open>JavaScript values\<close>

text \<open>
  The values that flow through \<^verbatim>\<open>logicmanager.js\<close> and \<^verbatim>\<open>engine.js\<close>: JSON data plus
  JavaScript's \<^verbatim>\<open>undefined\<close> (an omitted argument, a missing property). An object is the
  list of its own properties in the order in which they are enumerated. Numbers are
  integers here; the only operation of this code that looks inside a number is the comparison
  of a loop index with a length.
\<close>

datatype json =
    JUndefined
  | JNull
  | JBool bool
  | JNum int
  | JStr string
  | JArr "json list"
  | JObj "(string \<times> json) list"

type_synonym json_object = "(string \<times> json) list"

text \<open>A thrown exception: \<^verbatim>\<open>TypeError\<close> (a property read on null or undefined),
  \<^verbatim>\<open>RangeError\<close> (an array grown past its largest length) or \<^verbatim>\<open>new Error(message)\<close>,
  thrown by this code or by a collaborator.\<close>

datatype error = TypeError string | RangeError string | Error string

text \<open>\<^verbatim>\<open>x ? a : b\<close> and \<^verbatim>\<open>x || b\<close> test truthiness.\<close>

fun truthy :: "json \<Rightarrow> bool" where
  "truthy JUndefined = False"
| "truthy JNull = False"
| "truthy (JBool b) = b"
| "truthy (JNum n) = (n \<noteq> 0)"
| "truthy (JStr s) = (s \<noteq> [])"
| "truthy (JArr xs) = True"
| "truthy (JObj kvs) = True"

text \<open>\<^verbatim>\<open>x instanceof Object\<close>: true of objects and arrays, false of primitives, null
  and undefined.\<close>

fun instanceof_Object :: "json \<Rightarrow> bool" where
  "instanceof_Object (JArr xs) = True"
| "instanceof_Object (JObj kvs) = True"
| "instanceof_Object v = False"

text \<open>\<^verbatim>\<open>x.k\<close> for the property names this code reads (\<^verbatim>\<open>$class\<close>, \<^verbatim>\<open>__response\<close>,
  \<^verbatim>\<open>__state\<close>, \<^verbatim>\<open>__emit\<close>): a TypeError on null and undefined, the property's value on an
  object that has it, \<^verbatim>\<open>undefined\<close> otherwise (no array, string or other primitive has one
  of these).\<close>

fun get_prop :: "json \<Rightarrow> string \<Rightarrow> error + json" where
  "get_prop JUndefined k = Inl (TypeError (''Cannot read properties of undefined (reading '' @ k @ '')''))"
| "get_prop JNull k = Inl (TypeError (''Cannot read properties of null (reading '' @ k @ '')''))"
| "get_prop (JObj kvs) k = (case map_of kvs k of Some v \<Rightarrow> Inr v | None \<Rightarrow> Inr JUndefined)"
| "get_prop v k = Inr JUndefined"

text \<open>\<^verbatim>\<open>o[k] = v\<close> on an object: an existing property keeps its place, a new one is
  appended. \<^verbatim>\<open>Object.assign(target, source)\<close> assigns the source's properties in order.\<close>

fun set_prop :: "json_object \<Rightarrow> string \<Rightarrow> json \<Rightarrow> json_object" where
  "set_prop [] k v = [(k, v)]"
| "set_prop ((k', v') # kvs) k v =
     (if k' = k then (k, v) # kvs else (k', v') # set_prop kvs k v)"

definition Object_assign :: "json_object \<Rightarrow> json_object \<Rightarrow> json_object" where
  "Object_assign tgt src = foldl (\<lambda>acc (k, v). set_prop acc k v) tgt src"

text \<open>The decimal spelling of an array index, as \<^verbatim>\<open>for (const key in input)\<close> yields it.\<close>

definition digit :: "nat \<Rightarrow> char" where
  "digit n = ''0123456789'' ! (n mod 10)"

function decimal :: "nat \<Rightarrow> string" where
  "decimal n = (if n < 10 then [digit n] else decimal (n div 10) @ [digit (n mod 10)])"
  by pat_completeness auto
termination
  by (relation "measure (\<lambda>n. n)") auto

section \<open>Collaborators, objects and the call log\<close>

text \<open>
  The schema engine (Concerto's \<^verbatim>\<open>Serializer\<close>, \<^verbatim>\<open>ResourceValidator\<close>, \<^verbatim>\<open>ModelFile\<close>), the
  script manager, \<^verbatim>\<open>Util.setCurrentTime\<close>, \<^verbatim>\<open>slash\<close> and the two methods that the subclasses
  of \<^verbatim>\<open>Engine\<close> override are parameters. So is the boxing codec: \<^verbatim>\<open>boxedCollections.js\<close>
  (\<^verbatim>\<open>boxColl\<close>, \<^verbatim>\<open>unboxColl\<close>) is not among the sources, and nothing below depends on what
  it computes. Each parameter returns its value or the exception it throws.
  \<^typ>\<open>'r\<close> is the type of typed resources, \<^typ>\<open>'x\<close> the type of compiled executables
  (\<^verbatim>\<open>VMScript\<close> objects by the JSDoc of \<^verbatim>\<open>cacheJsScript\<close>, hence truthy).

  \<open>integers_below\<close> is the JavaScript runtime's coercion in a comparison \<^verbatim>\<open>i < L\<close> where
  \<open>L\<close> is a string, an array or an object (ToPrimitive, then the parse of a numeric
  string): the number of integers \<open>i \<ge> 0\<close> for which \<^verbatim>\<open>i < L\<close> is true, \<open>None\<close> when it is true of
  every \<open>i\<close> (\<open>L\<close> coerces to \<^verbatim>\<open>Infinity\<close>), or the TypeError of ToPrimitive.
\<close>

text \<open>
  What \<^verbatim>\<open>this.scripts[contractId]\<close> can hold: an executable stored by \<^verbatim>\<open>cacheJsScript\<close>, or
  the member of that name which the object \<^verbatim>\<open>{}\<close> inherits from \<^verbatim>\<open>Object.prototype\<close>.
\<close>

datatype 'x script_ref = Compiled 'x | Inherited string

record model_file =
  getNamespace :: string
  getName :: string
  getDefinitions :: string

record ('r, 'x) collaborators =
  fromJSON :: "json \<Rightarrow> json \<Rightarrow> error + 'r"
  resource_validate :: "'r \<Rightarrow> json \<Rightarrow> error + unit"
  toJSON :: "'r \<Rightarrow> json \<Rightarrow> error + json"
  setCurrentTime :: "json \<Rightarrow> json \<Rightarrow> error + json \<times> json"
  getCompiledJavaScript :: "error + string"
  hasDispatch :: "error + unit"
  compileVMScript :: "string \<Rightarrow> error + 'x"
  runVMScriptCall ::
    "json \<Rightarrow> json \<Rightarrow> json \<Rightarrow> json \<Rightarrow> 'x script_ref \<Rightarrow> string \<Rightarrow> error + json"
  ModelFile_namespace :: "string \<Rightarrow> string \<Rightarrow> error + string"
  ModelFile_validate :: "model_file \<Rightarrow> model_file list \<Rightarrow> error + unit"
  modelManager_validateModelFiles :: "model_file list \<Rightarrow> error + unit"
  slash :: "string \<Rightarrow> string"
  boxColl :: "json \<Rightarrow> error + json"
  unboxColl :: "json \<Rightarrow> error + json"
  integers_below :: "json \<Rightarrow> error + nat option"

text \<open>Every call of a collaborator and of the codec is recorded, in order.\<close>

datatype 'r call =
    Call_fromJSON json json
  | Call_validate 'r json
  | Call_toJSON 'r json
  | Call_boxColl json
  | Call_unboxColl json
  | Call_validateModelFiles
  | Call_getCompiledJavaScript
  | Call_hasDispatch
  | Call_compileVMScript string
  | Call_runVMScriptCall json string

text \<open>
  The fields of a \<^verbatim>\<open>LogicManager\<close> that the code below reads or writes; \<open>modelFiles\<close> is
  the registry held by its model manager. The \<^verbatim>\<open>Engine\<close> has the one field \<^verbatim>\<open>scripts\<close>,
  an object that starts as \<^verbatim>\<open>{}\<close>; the field \<open>scripts\<close> of the record holds its own properties,
  from contract identifiers to compiled executables.
\<close>

record logicmanager =
  target :: string
  contractName :: "string option"
  modelFiles :: "model_file list"
  builtInNamespaces :: "string list"
  validated :: bool

record 'x engine =
  scripts :: "string \<Rightarrow> 'x option"

text \<open>
  The world a call acts on: one logic manager, one engine, the objects that callers pass
  by reference (the \<^verbatim>\<open>options\<close> argument of \<^verbatim>\<open>validateContract\<close> is updated in place), and
  the call log.
\<close>

record ('r, 'x) world =
  logic :: logicmanager
  engine :: "'x engine"
  store :: "nat \<Rightarrow> json_object"
  next_ref :: nat
  calls :: "'r call list"

text \<open>A method call is a function of the world that returns a value or throws, and the world
  as the call left it.\<close>

type_synonym ('a, 'w) jsmethod = "'w \<Rightarrow> (error + 'a) \<times> 'w"

definition return :: "'a \<Rightarrow> ('a, 'w) jsmethod" where
  "return a w = (Inr a, w)"

definition throw :: "error \<Rightarrow> ('a, 'w) jsmethod" where
  "throw e w = (Inl e, w)"

definition bind :: "('a, 'w) jsmethod \<Rightarrow> ('a \<Rightarrow> ('b, 'w) jsmethod) \<Rightarrow> ('b, 'w) jsmethod" where
  "bind m f w = (case m w of (Inl e, w') \<Rightarrow> (Inl e, w') | (Inr a, w') \<Rightarrow> f a w')"

definition lift :: "error + 'a \<Rightarrow> ('a, 'w) jsmethod" where
  "lift r w = (r, w)"

definition record_call :: "'r call \<Rightarrow> (unit, ('r, 'x) world) jsmethod" where
  "record_call c w = (Inr (), w\<lparr>calls := calls w @ [c]\<rparr>)"

definition external :: "'r call \<Rightarrow> error + 'a \<Rightarrow> ('a, ('r, 'x) world) jsmethod" where
  "external c r = bind (record_call c) (\<lambda>_. lift r)"

definition new_object :: "json_object \<Rightarrow> (nat, ('r, 'x) world) jsmethod" where
  "new_object obj w =
     (Inr (next_ref w), w\<lparr>store := (store w)(next_ref w := obj), next_ref := Suc (next_ref w)\<rparr>)"

section \<open>LogicManager: validation of inputs and outputs\<close>

record 'r valid_contract =
  serialized :: json
  validated_resource :: 'r

text \<open>
  \<^verbatim>\<open>validateInput(input, utcOffset)\<close>, logicmanager.js lines 296-307.
\<close>

definition validateInput ::
  "('r, 'x) collaborators \<Rightarrow> json \<Rightarrow> json \<Rightarrow> (json, ('r, 'x) world) jsmethod" where
  "validateInput env input utcOffset =
     (if input = JNull then return JNull
      else
        bind (external
                (Call_fromJSON input
                   (JObj [(''validate'', JBool False),
                          (''acceptResourcesForRelationships'', JBool True),
                          (''utcOffset'', utcOffset)]))
                (fromJSON env input
                   (JObj [(''validate'', JBool False),
                          (''acceptResourcesForRelationships'', JBool True),
                          (''utcOffset'', utcOffset)])))
          (\<lambda>validInput.
        bind (external
                (Call_validate validInput (JObj [(''permitResourcesForRelationships'', JBool True)]))
                (resource_validate env validInput
                   (JObj [(''permitResourcesForRelationships'', JBool True)])))
          (\<lambda>_.
        bind (external
                (Call_toJSON validInput
                   (JObj [(''ergo'', JBool True),
                          (''permitResourcesForRelationships'', JBool True),
                          (''utcOffset'', utcOffset)]))
                (toJSON env validInput
                   (JObj [(''ergo'', JBool True),
                          (''permitResourcesForRelationships'', JBool True),
                          (''utcOffset'', utcOffset)])))
          (\<lambda>vJson.
        external (Call_boxColl vJson) (boxColl env vJson)))))"

text \<open>
  \<^verbatim>\<open>Object.assign(options, src)\<close> after \<^verbatim>\<open>options = options || {}\<close>: an omitted (or null)
  \<open>options\<close> is a fresh object that no caller sees; a supplied object is the caller's,
  updated in the store.
\<close>

definition Object_assign_options ::
  "nat option \<Rightarrow> json_object \<Rightarrow> (json_object, ('r, 'x) world) jsmethod" where
  "Object_assign_options options src w =
     (case options of
        None \<Rightarrow> (Inr (Object_assign [] src), w)
      | Some a \<Rightarrow>
          (Inr (Object_assign (store w a) src),
           w\<lparr>store := (store w)(a := Object_assign (store w a) src)\<rparr>))"

text \<open>
  \<^verbatim>\<open>validateContract(contract, utcOffset, options)\<close>, logicmanager.js lines 316-329. The
  result is \<^verbatim>\<open>null\<close> (\<open>None\<close>) or the record \<^verbatim>\<open>{ serialized, validated }\<close>.
\<close>

definition validateContract ::
  "('r, 'x) collaborators \<Rightarrow> json \<Rightarrow> json \<Rightarrow> nat option \<Rightarrow>
     ('r valid_contract option, ('r, 'x) world) jsmethod" where
  "validateContract env contract utcOffset options =
     (if contract = JNull then return None
      else
        bind (external
                (Call_fromJSON contract
                   (JObj [(''validate'', JBool False),
                          (''acceptResourcesForRelationships'', JBool True),
                          (''utcOffset'', utcOffset)]))
                (fromJSON env contract
                   (JObj [(''validate'', JBool False),
                          (''acceptResourcesForRelationships'', JBool True),
                          (''utcOffset'', utcOffset)])))
          (\<lambda>validContract.
        bind (external
                (Call_validate validContract
                   (JObj [(''permitResourcesForRelationships'', JBool True)]))
                (resource_validate env validContract
                   (JObj [(''permitResourcesForRelationships'', JBool True)])))
          (\<lambda>_.
        bind (Object_assign_options options
                [(''ergo'', JBool True), (''permitResourcesForRelationships'', JBool True)])
          (\<lambda>merged.
        bind (external (Call_toJSON validContract (JObj merged))
                (toJSON env validContract (JObj merged)))
          (\<lambda>vJson.
        bind (external (Call_boxColl vJson) (boxColl env vJson))
          (\<lambda>boxed.
        return (Some \<lparr>serialized = boxed, validated_resource = validContract\<rparr>)))))))"

text \<open>
  \<^verbatim>\<open>validateInputRecord(input, utcOffset)\<close>, lines 337-347. \<^verbatim>\<open>for (const key in input)\<close>
  visits the properties of an object, the indices of an array or of a string, and
  nothing of any other value.
\<close>

fun for_in :: "json \<Rightarrow> (string \<times> json) list" where
  "for_in (JObj kvs) = kvs"
| "for_in (JArr xs) = zip (map decimal [0..<length xs]) xs"
| "for_in (JStr s) = zip (map decimal [0..<length s]) (map (\<lambda>c. JStr [c]) s)"
| "for_in v = []"

fun validateInputRecord_loop ::
  "('r, 'x) collaborators \<Rightarrow> json \<Rightarrow> (string \<times> json) list \<Rightarrow> json_object \<Rightarrow>
     (json_object, ('r, 'x) world) jsmethod" where
  "validateInputRecord_loop env utcOffset [] validRecord w = (Inr validRecord, w)"
| "validateInputRecord_loop env utcOffset ((key, v) # rest) validRecord w =
     (if instanceof_Object v then
        (case validateInput env v utcOffset w of
           (Inl e, w') \<Rightarrow> (Inl e, w')
         | (Inr r, w') \<Rightarrow>
             validateInputRecord_loop env utcOffset rest (set_prop validRecord key r) w')
      else validateInputRecord_loop env utcOffset rest (set_prop validRecord key v) w)"

definition validateInputRecord ::
  "('r, 'x) collaborators \<Rightarrow> json \<Rightarrow> json \<Rightarrow> (json, ('r, 'x) world) jsmethod" where
  "validateInputRecord env input utcOffset =
     bind (validateInputRecord_loop env utcOffset (for_in input) []) (\<lambda>validRecord.
     return (JObj validRecord))"

text \<open>\<^verbatim>\<open>validateOutput(output, utcOffset)\<close>, lines 355-369.\<close>

definition validateOutput ::
  "('r, 'x) collaborators \<Rightarrow> json \<Rightarrow> json \<Rightarrow> (json, ('r, 'x) world) jsmethod" where
  "validateOutput env output utcOffset =
     (if output = JNull then return JNull
      else if instanceof_Object output then
        bind (external (Call_unboxColl output) (unboxColl env output))
          (\<lambda>vJson.
        bind (external
                (Call_fromJSON vJson
                   (JObj [(''ergo'', JBool True),
                          (''validate'', JBool False),
                          (''acceptResourcesForRelationships'', JBool True),
                          (''utcOffset'', utcOffset)]))
                (fromJSON env vJson
                   (JObj [(''ergo'', JBool True),
                          (''validate'', JBool False),
                          (''acceptResourcesForRelationships'', JBool True),
                          (''utcOffset'', utcOffset)])))
          (\<lambda>validOutput.
        bind (external
                (Call_validate validOutput
                   (JObj [(''permitResourcesForRelationships'', JBool True)]))
                (resource_validate env validOutput
                   (JObj [(''permitResourcesForRelationships'', JBool True)])))
          (\<lambda>_.
        external
          (Call_toJSON validOutput
             (JObj [(''convertResourcesToRelationships'', JBool True),
                    (''utcOffset'', utcOffset)]))
          (toJSON env validOutput
             (JObj [(''convertResourcesToRelationships'', JBool True),
                    (''utcOffset'', utcOffset)])))))
      else return output)"


text \<open>
  \<^verbatim>\<open>validateOutputArray(output, utcOffset)\<close>, lines 377-384. The loop
  \<^verbatim>\<open>for (let i = 0; i < outputArray.length; i++)\<close> reads \<^verbatim>\<open>outputArray.length\<close> and
  \<^verbatim>\<open>outputArray[i]\<close>, whatever \<^verbatim>\<open>unboxColl\<close> returned.

  \<^verbatim>\<open>x.length\<close> is a TypeError on null and undefined, the number of elements of an array, the
  number of characters of a string, the own property \<^verbatim>\<open>length\<close> of an object, and
  \<^verbatim>\<open>undefined\<close> on a number, a boolean and an object with no such property.
\<close>

fun length_prop :: "json \<Rightarrow> error + json" where
  "length_prop JUndefined =
     Inl (TypeError ''Cannot read properties of undefined (reading length)'')"
| "length_prop JNull = Inl (TypeError ''Cannot read properties of null (reading length)'')"
| "length_prop (JArr xs) = Inr (JNum (int (length xs)))"
| "length_prop (JStr s) = Inr (JNum (int (length s)))"
| "length_prop (JObj kvs) =
     (case map_of kvs ''length'' of Some v \<Rightarrow> Inr v | None \<Rightarrow> Inr JUndefined)"
| "length_prop v = Inr JUndefined"

text \<open>
  The number of integers \<open>i \<ge> 0\<close> with \<^verbatim>\<open>i < L\<close>: the comparison turns \<open>L\<close> into a number,
  \<^verbatim>\<open>undefined\<close> into NaN (the comparison is false), \<^verbatim>\<open>null\<close> and \<^verbatim>\<open>false\<close> into 0, \<^verbatim>\<open>true\<close>
  into 1; a string, an array or an object is coerced by the runtime.
\<close>

fun loop_bound :: "('r, 'x) collaborators \<Rightarrow> json \<Rightarrow> error + nat option" where
  "loop_bound env JUndefined = Inr (Some 0)"
| "loop_bound env JNull = Inr (Some 0)"
| "loop_bound env (JBool b) = Inr (Some (if b then 1 else 0))"
| "loop_bound env (JNum n) = Inr (Some (nat n))"
| "loop_bound env v = integers_below env v"

text \<open>\<^verbatim>\<open>x[i]\<close> for an index \<open>i\<close>: the element of an array, the character of a string, the
  own property of an object whose name is the decimal spelling of \<open>i\<close>; \<^verbatim>\<open>undefined\<close> when
  there is none.\<close>

fun index_prop :: "json \<Rightarrow> nat \<Rightarrow> json" where
  "index_prop (JArr xs) i = (if i < length xs then xs ! i else JUndefined)"
| "index_prop (JStr s) i = (if i < length s then JStr [s ! i] else JUndefined)"
| "index_prop (JObj kvs) i =
     (case map_of kvs (decimal i) of Some v \<Rightarrow> v | None \<Rightarrow> JUndefined)"
| "index_prop v i = JUndefined"

text \<open>
  An array holds at most 4294967295 elements: \<^verbatim>\<open>resultArray.push\<close> throws a RangeError
  when the array already has that many. So the loop visits the indices below its bound,
  and no more than 4294967296 of them.
\<close>

definition max_pushes :: nat where
  "max_pushes = 4294967296"

definition visited_indices :: "nat option \<Rightarrow> nat list" where
  "visited_indices bound =
     [0..<(case bound of Some n \<Rightarrow> min n max_pushes | None \<Rightarrow> max_pushes)]"

fun validateOutputArray_loop ::
  "('r, 'x) collaborators \<Rightarrow> json \<Rightarrow> json list \<Rightarrow> json list \<Rightarrow>
     (json list, ('r, 'x) world) jsmethod" where
  "validateOutputArray_loop env utcOffset [] resultArray w = (Inr resultArray, w)"
| "validateOutputArray_loop env utcOffset (x # rest) resultArray w =
     (case validateOutput env x utcOffset w of
        (Inl e, w') \<Rightarrow> (Inl e, w')
      | (Inr r, w') \<Rightarrow> validateOutputArray_loop env utcOffset rest (resultArray @ [r]) w')"

definition validateOutputArray ::
  "('r, 'x) collaborators \<Rightarrow> json \<Rightarrow> json \<Rightarrow> (json list, ('r, 'x) world) jsmethod" where
  "validateOutputArray env output utcOffset =
     bind (external (Call_unboxColl output) (unboxColl env output)) (\<lambda>outputArray.
     bind (lift (length_prop outputArray)) (\<lambda>len.
     bind (lift (loop_bound env len)) (\<lambda>bound.
     bind (validateOutputArray_loop env utcOffset
             (map (index_prop outputArray) (visited_indices bound)) [])
       (\<lambda>resultArray.
     if length (visited_indices bound) = max_pushes
     then throw (RangeError ''Invalid array length'')
     else return resultArray))))"

section \<open>LogicManager: model files\<close>

text \<open>
  Modelled from the spec: the model manager (\<^verbatim>\<open>apmodelmanager.js\<close> and the schema engine
  it wraps) is not among the sources. The spec (3, 6): the identity of a ModelFile is its
  namespace, with one ModelFile per namespace; a ModelFile is created on add, mutated on
  update and removed on delete by namespace; an inconsistent namespace is a ModelError.
  The third argument of add and update is the flag \<^verbatim>\<open>disableValidation\<close>: unless it is
  set, the schema engine validates the file before it is registered.
\<close>

definition getNamespaces :: "('r, 'x) world \<Rightarrow> string list" where
  "getNamespaces w = map getNamespace (modelFiles (logic w))"

definition set_modelFiles :: "model_file list \<Rightarrow> (unit, ('r, 'x) world) jsmethod" where
  "set_modelFiles fs w = (Inr (), w\<lparr>logic := (logic w)\<lparr>modelFiles := fs\<rparr>\<rparr>)"

definition modelManager_addModelFile ::
  "('r, 'x) collaborators \<Rightarrow> model_file \<Rightarrow> bool \<Rightarrow> (unit, ('r, 'x) world) jsmethod" where
  "modelManager_addModelFile env m disableValidation w =
     (if getNamespace m \<in> set (getNamespaces w)
      then throw (Error ''namespace already exists'') w
      else
        bind (lift (if disableValidation then Inr ()
                    else ModelFile_validate env m (modelFiles (logic w))))
          (\<lambda>_. set_modelFiles (modelFiles (logic w) @ [m])) w)"

definition modelManager_updateModelFile ::
  "('r, 'x) collaborators \<Rightarrow> model_file \<Rightarrow> bool \<Rightarrow> (unit, ('r, 'x) world) jsmethod" where
  "modelManager_updateModelFile env m disableValidation w =
     (if getNamespace m \<notin> set (getNamespaces w)
      then throw (Error ''model file does not exist'') w
      else
        bind (lift (if disableValidation then Inr ()
                    else ModelFile_validate env m (modelFiles (logic w))))
          (\<lambda>_. set_modelFiles
                  (map (\<lambda>f. if getNamespace f = getNamespace m then m else f)
                     (modelFiles (logic w)))) w)"

definition modelManager_deleteModelFile :: "string \<Rightarrow> (unit, ('r, 'x) world) jsmethod" where
  "modelManager_deleteModelFile ns w =
     (if ns \<notin> set (getNamespaces w)
      then throw (Error ''model file does not exist'') w
      else set_modelFiles (filter (\<lambda>f. getNamespace f \<noteq> ns) (modelFiles (logic w))) w)"

text \<open>\<^verbatim>\<open>new ModelFile(modelManager, content, name)\<close>: the schema engine parses the content
  and finds its namespace, or throws.\<close>

definition new_ModelFile ::
  "('r, 'x) collaborators \<Rightarrow> string \<Rightarrow> string \<Rightarrow> (model_file, ('r, 'x) world) jsmethod" where
  "new_ModelFile env content name =
     bind (lift (ModelFile_namespace env content name)) (\<lambda>ns.
     return \<lparr>getNamespace = ns, getName = name, getDefinitions = content\<rparr>)"

definition set_validated :: "bool \<Rightarrow> (unit, ('r, 'x) world) jsmethod" where
  "set_validated b w = (Inr (), w\<lparr>logic := (logic w)\<lparr>validated := b\<rparr>\<rparr>)"

text \<open>\<^verbatim>\<open>addModelFile(modelFileContent, fileName)\<close>, logicmanager.js lines 212-220.\<close>

definition addModelFile ::
  "('r, 'x) collaborators \<Rightarrow> string \<Rightarrow> string \<Rightarrow> (unit, ('r, 'x) world) jsmethod" where
  "addModelFile env modelFileContent fileName =
     bind (set_validated False) (\<lambda>_.
     bind (new_ModelFile env modelFileContent (slash env fileName)) (\<lambda>modelFile. (\<lambda>w.
       if getNamespace modelFile \<notin> set (builtInNamespaces (logic w))
       then modelManager_addModelFile env modelFile True w
       else return () w)))"

text \<open>
  \<^verbatim>\<open>addModelFiles(modelFiles, modelFileNames)\<close>, lines 229-236. A content with no file name
  at its index reaches \<^verbatim>\<open>slash(undefined)\<close>, which throws a TypeError.
\<close>

fun addModelFiles_loop ::
  "('r, 'x) collaborators \<Rightarrow> string list \<Rightarrow> string list \<Rightarrow> (unit, ('r, 'x) world) jsmethod" where
  "addModelFiles_loop env [] names w = (Inr (), w)"
| "addModelFiles_loop env (modelFileContent # rest) [] w =
     (Inl (TypeError ''Cannot read properties of undefined (reading replace)''), w)"
| "addModelFiles_loop env (modelFileContent # rest) (n # names) w =
     (case addModelFile env modelFileContent (slash env n) w of
        (Inl e, w') \<Rightarrow> (Inl e, w')
      | (Inr _, w') \<Rightarrow> addModelFiles_loop env rest names w')"

definition addModelFiles ::
  "('r, 'x) collaborators \<Rightarrow> string list \<Rightarrow> string list \<Rightarrow> (unit, ('r, 'x) world) jsmethod" where
  "addModelFiles env files modelFileNames =
     bind (set_validated False) (\<lambda>_. addModelFiles_loop env files modelFileNames)"

text \<open>\<^verbatim>\<open>validateModelFiles()\<close>, lines 241-246.\<close>

definition validateModelFiles ::
  "('r, 'x) collaborators \<Rightarrow> (unit, ('r, 'x) world) jsmethod" where
  "validateModelFiles env w =
     (if \<not> validated (logic w) then
        bind (external Call_validateModelFiles
                (modelManager_validateModelFiles env (modelFiles (logic w))))
          (\<lambda>_. set_validated True) w
      else return () w)"

text \<open>\<^verbatim>\<open>updateModel(content, name)\<close>, lines 391-412.\<close>

definition updateModel ::
  "('r, 'x) collaborators \<Rightarrow> string \<Rightarrow> string \<Rightarrow> (unit, ('r, 'x) world) jsmethod" where
  "updateModel env content name w =
     (let currentModels = modelFiles (logic w) in
      if \<not> list_ex (\<lambda>x. getName x = name) currentModels then
        bind (new_ModelFile env content name) (\<lambda>m.
        modelManager_addModelFile env m False) w
      else
        let previousModelFile = hd (filter (\<lambda>x. getName x = name) currentModels);
            previousContent = getDefinitions previousModelFile
        in
          if content \<noteq> previousContent then
            (let previousNamespace = getNamespace previousModelFile in
             bind (new_ModelFile env content name) (\<lambda>m.
               if previousNamespace = getNamespace m
               then modelManager_updateModelFile env m True
               else
                 bind (modelManager_deleteModelFile previousNamespace) (\<lambda>_.
                 modelManager_addModelFile env m True)) w)
          else return () w)"

section \<open>LogicManager: call fragments\<close>

text \<open>\<^verbatim>\<open>getDispatchCall()\<close>, lines 96-109, and \<^verbatim>\<open>getInvokeCall(clauseName)\<close>, lines 117-134.\<close>

definition getDispatchCall :: "('r, 'x) collaborators \<Rightarrow> (string, ('r, 'x) world) jsmethod" where
  "getDispatchCall env w =
     (if target (logic w) = ''es6'' then
        bind (external Call_hasDispatch (hasDispatch env)) (\<lambda>_.
        return (''\<newline>const __result = __dispatch({__now:now,__options:options,__contract:context.data,__state:context.state,__emit:{$coll:[],$length:0},request:context.request});\<newline>unwrapError(__result);\<newline>        '')) w
      else throw (Error (''Unsupported target: '' @ target (logic w))) w)"

definition getInvokeCall ::
  "('r, 'x) collaborators \<Rightarrow> string \<Rightarrow> (string, ('r, 'x) world) jsmethod" where
  "getInvokeCall env clauseName w =
     (if target (logic w) = ''es6'' then
        (case contractName (logic w) of
           Some cn \<Rightarrow>
             if cn \<noteq> [] then
               return (''\<newline>const __result = '' @ cn @ ''.'' @ clauseName @ ''(Object.assign({}, {__now:now,__options:options,__contract:context.data,__state:context.state,__emit:{$coll:[],$length:0}},context.params));\<newline>unwrapError(__result);\<newline>'') w
             else throw (Error (''Cannot create invoke call for target: '' @ target (logic w) @ '' without a contract name'')) w
         | None \<Rightarrow> throw (Error (''Cannot create invoke call for target: '' @ target (logic w) @ '' without a contract name'')) w)
      else throw (Error (''Unsupported target: '' @ target (logic w))) w)"

section \<open>Engine\<close>

text \<open>
  The members that every object created by \<^verbatim>\<open>{}\<close> inherits from \<^verbatim>\<open>Object.prototype\<close>. Each is
  a function, or for \<^verbatim>\<open>__proto__\<close> the prototype object itself, so each is truthy.
\<close>

definition Object_prototype_members :: "string list" where
  "Object_prototype_members =
     [''constructor'', ''__defineGetter__'', ''__defineSetter__'', ''hasOwnProperty'',
      ''__lookupGetter__'', ''__lookupSetter__'', ''isPrototypeOf'', ''propertyIsEnumerable'',
      ''toString'', ''valueOf'', ''__proto__'', ''toLocaleString'']"

text \<open>\<^verbatim>\<open>this.scripts[contractId]\<close>: the own property when there is one, else the inherited
  member of that name, else \<^verbatim>\<open>undefined\<close> (\<open>None\<close>), the only falsy case.\<close>

definition scripts_get :: "'x engine \<Rightarrow> string \<Rightarrow> 'x script_ref option" where
  "scripts_get e contractId =
     (case scripts e contractId of
        Some script \<Rightarrow> Some (Compiled script)
      | None \<Rightarrow>
          if contractId \<in> set Object_prototype_members then Some (Inherited contractId)
          else None)"


definition set_script :: "string \<Rightarrow> 'x \<Rightarrow> (unit, ('r, 'x) world) jsmethod" where
  "set_script contractId script w =
     (Inr (), w\<lparr>engine := (engine w)\<lparr>scripts := (scripts (engine w))(contractId := Some script)\<rparr>\<rparr>)"

definition cacheJsScript ::
  "('r, 'x) collaborators \<Rightarrow> string \<Rightarrow> ('x script_ref, ('r, 'x) world) jsmethod" where
  "cacheJsScript env contractId w =
     (case scripts_get (engine w) contractId of
        None \<Rightarrow>
          bind (external Call_getCompiledJavaScript (getCompiledJavaScript env)) (\<lambda>allJsScripts.
          bind (external (Call_compileVMScript allJsScripts)
                  (compileVMScript env allJsScripts)) (\<lambda>script.
          bind (set_script contractId script) (\<lambda>_.
          return (Compiled script)))) w
      | Some cachedScript \<Rightarrow> return cachedScript w)"

text \<open>The result of \<^verbatim>\<open>trigger\<close> and of \<^verbatim>\<open>invoke\<close>; \<open>emit\<close> is a JavaScript array.\<close>

record answer =
  clause :: string
  response :: json
  state :: json
  emit :: "json list"

record trigger_answer = answer +
  request :: json

record invoke_answer = answer +
  params :: json

definition default_options :: json where
  "default_options =
     JObj [(''$class'', JStr ''org.accordproject.ergo.options.Options''),
           (''wrapVariables'', JBool False),
           (''template'', JBool False)]"

definition defaultState :: json where
  "defaultState = JObj [(''$class'', JStr ''org.accordproject.runtime.State'')]"

text \<open>\<^verbatim>\<open>validContract.serialized\<close>: a TypeError when \<^verbatim>\<open>validContract\<close> is null.\<close>

definition get_serialized :: "'r valid_contract option \<Rightarrow> error + json" where
  "get_serialized validContract =
     (case validContract of
        None \<Rightarrow> Inl (TypeError ''Cannot read properties of null (reading serialized)'')
      | Some c \<Rightarrow> Inr (serialized c))"

text \<open>
  \<^verbatim>\<open>trigger(logic, contractId, contract, request, state, currentTime, utcOffset, options)\<close>,
  engine.js lines 103-142. The argument of \<^verbatim>\<open>Logger.debug\<close> reads \<^verbatim>\<open>request.$class\<close> and
  \<^verbatim>\<open>state.$class\<close>.
\<close>

definition trigger ::
  "('r, 'x) collaborators \<Rightarrow> string \<Rightarrow> json \<Rightarrow> json \<Rightarrow> json \<Rightarrow> json \<Rightarrow> json \<Rightarrow> json \<Rightarrow>
     (trigger_answer, ('r, 'x) world) jsmethod" where
  "trigger env contractId contract req st currentTime utcOffset options =
     bind (lift (setCurrentTime env currentTime utcOffset)) (\<lambda>(now, offset).
     bind (external (Call_boxColl (if truthy options then options else default_options))
             (boxColl env (if truthy options then options else default_options)))
       (\<lambda>validOptions.
     bind (validateContract env contract offset None) (\<lambda>validContract.
     bind (validateInput env req offset) (\<lambda>validRequest.
     bind (validateInput env st offset) (\<lambda>validState.
     bind (lift (get_prop req ''$class'')) (\<lambda>_.
     bind (lift (get_prop st ''$class'')) (\<lambda>_.
     bind (cacheJsScript env contractId) (\<lambda>script.
     bind (getDispatchCall env) (\<lambda>callScript.
     bind (lift (get_serialized validContract)) (\<lambda>data.
     bind (external
             (Call_runVMScriptCall
                (JObj [(''data'', data), (''state'', validState),
                       (''request'', validRequest), (''options'', validOptions)])
                callScript)
             (runVMScriptCall env offset now validOptions
                (JObj [(''data'', data), (''state'', validState),
                       (''request'', validRequest), (''options'', validOptions)])
                script callScript))
       (\<lambda>result.
     bind (lift (get_prop result ''__response'')) (\<lambda>r_response.
     bind (validateOutput env r_response offset) (\<lambda>validResponse.
     bind (lift (get_prop result ''__state'')) (\<lambda>r_state.
     bind (validateOutput env r_state offset) (\<lambda>validNewState.
     bind (lift (get_prop result ''__emit'')) (\<lambda>r_emit.
     bind (validateOutputArray env r_emit offset) (\<lambda>validEmit.
     return \<lparr>clause = contractId, response = validResponse, state = validNewState,
              emit = validEmit, request = req\<rparr>)))))))))))))))))"

text \<open>
  \<^verbatim>\<open>invoke(logic, contractId, clauseName, contract, params, state, currentTime, utcOffset,
  options, validateOptions)\<close>, lines 159-198.
\<close>

definition invoke ::
  "('r, 'x) collaborators \<Rightarrow> string \<Rightarrow> string \<Rightarrow> json \<Rightarrow> json \<Rightarrow> json \<Rightarrow> json \<Rightarrow> json \<Rightarrow> json \<Rightarrow>
     nat option \<Rightarrow> (invoke_answer, ('r, 'x) world) jsmethod" where
  "invoke env contractId clauseName contract pars st currentTime utcOffset options
     validateOptions =
     bind (lift (setCurrentTime env currentTime utcOffset)) (\<lambda>(now, offset).
     bind (external (Call_boxColl (if truthy options then options else default_options))
             (boxColl env (if truthy options then options else default_options)))
       (\<lambda>invokeOptions.
     bind (validateContract env contract offset validateOptions) (\<lambda>validContract.
     bind (validateInputRecord env pars offset) (\<lambda>validParams.
     bind (validateInput env st offset) (\<lambda>validState.
     bind (lift (get_prop st ''$class'')) (\<lambda>_.
     bind (cacheJsScript env contractId) (\<lambda>script.
     bind (getInvokeCall env clauseName) (\<lambda>callScript.
     bind (lift (get_serialized validContract)) (\<lambda>data.
     bind (external
             (Call_runVMScriptCall
                (JObj [(''data'', data), (''state'', validState),
                       (''params'', validParams), (''__options'', invokeOptions)])
                callScript)
             (runVMScriptCall env offset now invokeOptions
                (JObj [(''data'', data), (''state'', validState),
                       (''params'', validParams), (''__options'', invokeOptions)])
                script callScript))
       (\<lambda>result.
     bind (lift (get_prop result ''__response'')) (\<lambda>r_response.
     bind (validateOutput env r_response offset) (\<lambda>validResponse.
     bind (lift (get_prop result ''__state'')) (\<lambda>r_state.
     bind (validateOutput env r_state offset) (\<lambda>validNewState.
     bind (lift (get_prop result ''__emit'')) (\<lambda>r_emit.
     bind (validateOutputArray env r_emit offset) (\<lambda>validEmit.
     return \<lparr>clause = contractId, response = validResponse, state = validNewState,
              emit = validEmit, params = pars\<rparr>))))))))))))))))"

text \<open>\<^verbatim>\<open>init(logic, contractId, contract, params, currentTime, utcOffset, options)\<close>,
  lines 211-216.\<close>

definition init ::
  "('r, 'x) collaborators \<Rightarrow> string \<Rightarrow> json \<Rightarrow> json \<Rightarrow> json \<Rightarrow> json \<Rightarrow> json \<Rightarrow>
     (invoke_answer, ('r, 'x) world) jsmethod" where
  "init env contractId contract pars currentTime utcOffset options =
     invoke env contractId ''init'' contract pars defaultState currentTime utcOffset options None"

text \<open>\<^verbatim>\<open>calculate(logic, contractId, name, contract, currentTime, utcOffset, options)\<close>,
  lines 229-236. The literal \<^verbatim>\<open>{convertResourcesToId: true}\<close> is a new object.\<close>

definition calculate ::
  "('r, 'x) collaborators \<Rightarrow> string \<Rightarrow> string \<Rightarrow> json \<Rightarrow> json \<Rightarrow> json \<Rightarrow> json \<Rightarrow>
     (invoke_answer, ('r, 'x) world) jsmethod" where
  "calculate env contractId name contract currentTime utcOffset options =
     bind (new_object [(''convertResourcesToId'', JBool True)]) (\<lambda>validateOptions.
     invoke env contractId name contract (JObj []) defaultState currentTime utcOffset
       (if truthy options then options else JObj []) (Some validateOptions))"

section \<open>Observations on method calls\<close>



text \<open>
  Predicates used in the proofs. A call \<open>fails\<close> when it throws in every world; it is
  \<open>quiet\<close> when it leaves the script cache and the number of compilations as they were;
  it \<open>keeps\<close> an invariant of the world whether it returns or throws, and \<open>ensures\<close> a
  postcondition when it returns. \<open>cache_is\<close> and \<open>cache_filled\<close> describe the cache before and
  after one more entry.
\<close>

definition fails :: "('a, 'w) jsmethod \<Rightarrow> bool" where
  "fails m = (\<forall>w. \<exists>e w'. m w = (Inl e, w'))"






section \<open>A sample configuration\<close>

text \<open>
  Concrete collaborators on which the theorems below are instantiated. Resources are JSON
  values; a value deserializes when it carries a \<^verbatim>\<open>$class\<close> string; serializing with
  \<^verbatim>\<open>convertResourcesToRelationships\<close> turns each embedded resource into its reference string.
  The sample codec wraps a collection with its length and unwraps it again. A model file's
  content begins with the word \<^verbatim>\<open>namespace\<close> and its namespace. The executed logic answers
  every call with a fixed response that embeds a resource, the default state and one
  emitted event. No sample run compares an index with a string, an array or an object.
\<close>

definition sample_relationship :: "json \<Rightarrow> json" where
  "sample_relationship v =
     (case v of
        JObj fs \<Rightarrow>
          (case map_of fs ''$class'' of
             Some (JStr c) \<Rightarrow> JStr (''resource:'' @ c)
           | _ \<Rightarrow> v)
      | _ \<Rightarrow> v)"

definition sample_toJSON :: "json \<Rightarrow> json \<Rightarrow> json" where
  "sample_toJSON r opts =
     (if get_prop opts ''convertResourcesToRelationships'' = Inr (JBool True) then
        (case r of
           JObj kvs \<Rightarrow> JObj (map (\<lambda>(k, v). (k, sample_relationship v)) kvs)
         | _ \<Rightarrow> r)
      else r)"

fun sample_boxColl :: "json \<Rightarrow> json" where
  "sample_boxColl (JArr xs) =
     JObj [(''$coll'', JArr (map sample_boxColl xs)), (''$length'', JNum (int (length xs)))]"
| "sample_boxColl (JObj kvs) = JObj (map (\<lambda>(k, v). (k, sample_boxColl v)) kvs)"
| "sample_boxColl v = v"

fun sample_unboxColl :: "json \<Rightarrow> json" where
  "sample_unboxColl (JArr xs) = JArr (map sample_unboxColl xs)"
| "sample_unboxColl (JObj kvs) =
     (case kvs of
        [(k1, JArr xs), (k2, JNum n)] \<Rightarrow>
          if k1 = ''$coll'' \<and> k2 = ''$length'' \<and> n = int (length xs)
          then JArr (map sample_unboxColl xs)
          else JObj (map (\<lambda>(k, v). (k, sample_unboxColl v)) kvs)
      | _ \<Rightarrow> JObj (map (\<lambda>(k, v). (k, sample_unboxColl v)) kvs))"
| "sample_unboxColl v = v"

definition sample_result :: json where
  "sample_result =
     JObj [(''__response'',
            JObj [(''$class'', JStr ''org.acme.test.Response''),
                  (''customer'', JObj [(''$class'', JStr ''org.acme.test.Customer'')])]),
           (''__state'', JObj [(''$class'', JStr ''org.accordproject.runtime.State'')]),
           (''__emit'',
            JObj [(''$coll'',
                   JArr [JObj [(''$class'', JStr ''org.acme.test.Event''),
                               (''source'', JObj [(''$class'', JStr ''org.acme.test.Customer'')])]]),
                  (''$length'', JNum 1)])]"

definition sample_env :: "(json, string) collaborators" where
  "sample_env =
     \<lparr>fromJSON = (\<lambda>j opts. case get_prop j ''$class'' of
                     Inr (JStr c) \<Rightarrow> Inr j
                   | _ \<Rightarrow> Inl (Error ''Invalid JSON data. Does not contain a $class type identifier.'')),
      resource_validate = (\<lambda>r opts. Inr ()),
      toJSON = (\<lambda>r opts. Inr (sample_toJSON r opts)),
      setCurrentTime = (\<lambda>currentTime utcOffset. Inr (currentTime, utcOffset)),
      getCompiledJavaScript = Inr ''compiled'',
      hasDispatch = Inr (),
      compileVMScript = (\<lambda>script. Inr script),
      runVMScriptCall = (\<lambda>utcOffset now options ctx script call. Inr sample_result),
      ModelFile_namespace = (\<lambda>content name.
        if take 10 content = ''namespace ''
        then Inr (takeWhile (\<lambda>c. c \<noteq> CHR '' '') (drop 10 content))
        else Inl (Error ''Expected namespace'')),
      ModelFile_validate = (\<lambda>m fs. Inr ()),
      modelManager_validateModelFiles = (\<lambda>fs. Inr ()),
      slash = map (\<lambda>c. if c = CHR 0x5C then CHR ''/'' else c),
      boxColl = (\<lambda>v. Inr (sample_boxColl v)),
      unboxColl = (\<lambda>v. Inr (sample_unboxColl v)),
      integers_below = (\<lambda>v. Inr (Some 0))\<rparr>"


definition sample_world :: "(json, string) world" where
  "sample_world =
     \<lparr>logic =
        \<lparr>target = ''es6'',
         contractName = Some ''Bar'',
         modelFiles =
           [\<lparr>getNamespace = ''org.accordproject.base'', getName = ''base.cto'',
             getDefinitions = ''namespace org.accordproject.base''\<rparr>],
         builtInNamespaces = [''org.accordproject.base''],
         validated = False\<rparr>,
      engine = \<lparr>scripts = (\<lambda>k. None)\<rparr>,
      store = (\<lambda>a. []),
      next_ref = 0,
      calls = []\<rparr>"


definition sample_request :: json where
  "sample_request =
     JObj [(''$class'', JStr ''org.acme.test.Request''), (''amounts'', JArr [JNum 3])]"

definition sample_contract :: json where
  "sample_contract = JObj [(''$class'', JStr ''org.acme.test.Contract'')]"

section \<open>The method monad\<close>

lemmas monad_defs = bind_def return_def throw_def lift_def external_def record_call_def

lemma bind_InrE:
  assumes "bind m f w = (Inr b, w')"
  obtains a w1 where "m w = (Inr a, w1)" and "f a w1 = (Inr b, w')"
  using assms by (auto simp: bind_def split: prod.splits sum.splits)

lemma lift_InrE:
  assumes "lift r w = (Inr b, w')"
  obtains "r = Inr b" and "w' = w"
  using assms by (auto simp: lift_def)


lemma return_InrE:
  assumes "return a w = (Inr b, w')"
  obtains "b = a" and "w' = w"
  using assms by (auto simp: return_def)

lemma bind_return: "bind (return a) f = f a"
  by (simp add: bind_def return_def fun_eq_iff)

lemma snd_bind:
  "snd (bind m f w) = (case m w of (Inl e, w') \<Rightarrow> w' | (Inr a, w') \<Rightarrow> snd (f a w'))"
  by (simp add: bind_def split: prod.splits sum.splits)

lemma bind_keeps:
  assumes "\<And>w. P (snd (m w)) = P w" and "\<And>a w. P (snd (f a w)) = P w"
  shows "P (snd (bind m f w)) = P w"
proof (cases "m w")
  case (Pair r w1)
  have 1: "P w1 = P w" using assms(1) [of w] Pair by simp
  show ?thesis
  proof (cases r)
    case (Inl e)
    with Pair 1 show ?thesis by (simp add: bind_def)
  next
    case (Inr x)
    with Pair 1 assms(2) [of x w1] show ?thesis by (simp add: bind_def)
  qed
qed

lemma fst_eq_pair: "fst p = a \<Longrightarrow> p = (a, snd p)"
  by (cases p) simp

section \<open>The sample configuration, evaluated\<close>

lemmas sample_defs = sample_env_def sample_world_def sample_contract_def sample_request_def
  sample_result_def defaultState_def default_options_def sample_toJSON_def
  sample_relationship_def

lemmas engine_defs = trigger_def invoke_def validateContract_def validateInput_def
  validateOutput_def validateOutputArray_def validateInputRecord_def cacheJsScript_def
  getDispatchCall_def getInvokeCall_def get_serialized_def Object_assign_options_def
  Object_assign_def set_script_def scripts_get_def Object_prototype_members_def
  visited_indices_def max_pushes_def


lemma sample_init:
  "fst (init sample_env ''Bar'' sample_contract (JObj [(''x'', JNum 1)]) JUndefined JUndefined
          JUndefined sample_world) =
   Inr \<lparr>clause = ''Bar'',
        response = JObj [(''$class'', JStr ''org.acme.test.Response''),
                         (''customer'', JStr ''resource:org.acme.test.Customer'')],
        state = JObj [(''$class'', JStr ''org.accordproject.runtime.State'')],
        emit = [JObj [(''$class'', JStr ''org.acme.test.Event''),
                      (''source'', JStr ''resource:org.acme.test.Customer'')]],
        params = JObj [(''x'', JNum 1)]\<rparr>"
  by (simp add: init_def engine_defs monad_defs sample_defs)

lemma sample_invoke_empty:
  "fst (invoke sample_env ''Bar'' ''init'' sample_contract (JObj []) defaultState JUndefined
          JUndefined JUndefined None sample_world) =
   Inr \<lparr>clause = ''Bar'',
        response = JObj [(''$class'', JStr ''org.acme.test.Response''),
                         (''customer'', JStr ''resource:org.acme.test.Customer'')],
        state = JObj [(''$class'', JStr ''org.accordproject.runtime.State'')],
        emit = [JObj [(''$class'', JStr ''org.acme.test.Event''),
                      (''source'', JStr ''resource:org.acme.test.Customer'')]],
        params = JObj []\<rparr>"
  by (simp add: engine_defs monad_defs sample_defs)

lemma sample_namespace:
  "ModelFile_namespace sample_env ''namespace org.accordproject.base'' n = Inr ''org.accordproject.base''"
  "ModelFile_namespace sample_env ''namespace org.accordproject.base concept A {}'' n =
     Inr ''org.accordproject.base''"
  "ModelFile_namespace sample_env ''namespace org.acme.test'' n = Inr ''org.acme.test''"
  by (simp_all add: sample_env_def)

lemma sample_slash: "slash sample_env ''test.cto'' = ''test.cto''"
  by (simp add: sample_env_def)

lemma sample_models:
  "modelFiles (logic sample_world) =
     [\<lparr>getNamespace = ''org.accordproject.base'', getName = ''base.cto'',
       getDefinitions = ''namespace org.accordproject.base''\<rparr>]"
  "builtInNamespaces (logic sample_world) = [''org.accordproject.base'']"
  "getNamespaces sample_world = [''org.accordproject.base'']"
  by (simp_all add: sample_world_def getNamespaces_def)

lemma sample_fromJSON_contract:
  "fromJSON sample_env sample_contract opts = Inr sample_contract"
  "fromJSON sample_env (JObj []) opts =
     Inl (Error ''Invalid JSON data. Does not contain a $class type identifier.'')"
  "resource_validate sample_env r opts = Inr ()"
  "toJSON sample_env r opts = Inr (sample_toJSON r opts)"
  "boxColl sample_env v = Inr (sample_boxColl v)"
  by (simp_all add: sample_env_def sample_contract_def)

lemma sample_fromJSON_request:
  "fromJSON sample_env sample_request opts = Inr sample_request"
  by (simp add: sample_env_def sample_request_def)

section \<open>Validation of inputs\<close>

text \<open>
  C2. For every \<open>utcOffset\<close>, \<^verbatim>\<open>validateInput(null, utcOffset)\<close> returns null and leaves
  the world as it was: no collaborator and no codec call is recorded. A non-null input is
  deserialized with \<^verbatim>\<open>validate: false, acceptResourcesForRelationships: true\<close>, validated
  with \<^verbatim>\<open>permitResourcesForRelationships: true\<close>, serialized with \<^verbatim>\<open>ergo: true\<close> and boxed,
  in this order; the result is what \<^verbatim>\<open>boxColl\<close> returns, and the first step that throws ends
  the call with its exception.
\<close>

theorem validateInput_null_or_pipeline:
  "validateInput env JNull utcOffset w = (Inr JNull, w) \<and>
   (input \<noteq> JNull \<longrightarrow>
    validateInput env input utcOffset w =
      (let o1 = JObj [(''validate'', JBool False),
                      (''acceptResourcesForRelationships'', JBool True),
                      (''utcOffset'', utcOffset)];
           o2 = JObj [(''permitResourcesForRelationships'', JBool True)];
           o3 = JObj [(''ergo'', JBool True),
                      (''permitResourcesForRelationships'', JBool True),
                      (''utcOffset'', utcOffset)]
       in case fromJSON env input o1 of
            Inl e \<Rightarrow> (Inl e, w\<lparr>calls := calls w @ [Call_fromJSON input o1]\<rparr>)
          | Inr validInput \<Rightarrow>
              (case resource_validate env validInput o2 of
                 Inl e \<Rightarrow>
                   (Inl e, w\<lparr>calls := calls w @
                      [Call_fromJSON input o1, Call_validate validInput o2]\<rparr>)
               | Inr u \<Rightarrow>
                   (case toJSON env validInput o3 of
                      Inl e \<Rightarrow>
                        (Inl e, w\<lparr>calls := calls w @
                           [Call_fromJSON input o1, Call_validate validInput o2,
                            Call_toJSON validInput o3]\<rparr>)
                    | Inr vJson \<Rightarrow>
                        (boxColl env vJson, w\<lparr>calls := calls w @
                           [Call_fromJSON input o1, Call_validate validInput o2,
                            Call_toJSON validInput o3, Call_boxColl vJson]\<rparr>)))))"
  by (simp add: validateInput_def monad_defs Let_def split: sum.splits)

theorem validateInput_null_or_pipeline_witness:
  "sample_request \<noteq> JNull \<and>
   validateInput sample_env JNull (JNum 0) sample_world = (Inr JNull, sample_world) \<and>
   validateInput sample_env sample_request (JNum 0) sample_world =
     (Inr (JObj [(''$class'', JStr ''org.acme.test.Request''),
                 (''amounts'', JObj [(''$coll'', JArr [JNum 3]), (''$length'', JNum 1)])]),
      sample_world\<lparr>calls :=
        [Call_fromJSON sample_request
           (JObj [(''validate'', JBool False),
                  (''acceptResourcesForRelationships'', JBool True),
                  (''utcOffset'', JNum 0)]),
         Call_validate sample_request (JObj [(''permitResourcesForRelationships'', JBool True)]),
         Call_toJSON sample_request
           (JObj [(''ergo'', JBool True),
                  (''permitResourcesForRelationships'', JBool True),
                  (''utcOffset'', JNum 0)]),
         Call_boxColl sample_request]\<rparr>)"
proof -
  have ne: "sample_request \<noteq> JNull" by (simp add: sample_request_def)
  have c: "calls sample_world = []" by (simp add: sample_world_def)
  have b: "boxColl sample_env sample_request =
      Inr (JObj [(''$class'', JStr ''org.acme.test.Request''),
                 (''amounts'', JObj [(''$coll'', JArr [JNum 3]), (''$length'', JNum 1)])])"
    by (simp add: sample_env_def sample_request_def)
  have s: "resource_validate sample_env r opts = Inr ()"
    "toJSON sample_env sample_request
       (JObj [(''ergo'', JBool True), (''permitResourcesForRelationships'', JBool True),
              (''utcOffset'', JNum 0)]) = Inr sample_request" for r opts
    by (simp_all add: sample_env_def sample_toJSON_def)
  note t = validateInput_null_or_pipeline [of sample_env "JNum 0" sample_world sample_request]
  from t have n: "validateInput sample_env JNull (JNum 0) sample_world = (Inr JNull, sample_world)"
    by (rule conjunct1)
  from t ne have "validateInput sample_env sample_request (JNum 0) sample_world =
     (boxColl sample_env sample_request, sample_world\<lparr>calls := calls sample_world @
        [Call_fromJSON sample_request
           (JObj [(''validate'', JBool False),
                  (''acceptResourcesForRelationships'', JBool True),
                  (''utcOffset'', JNum 0)]),
         Call_validate sample_request (JObj [(''permitResourcesForRelationships'', JBool True)]),
         Call_toJSON sample_request
           (JObj [(''ergo'', JBool True),
                  (''permitResourcesForRelationships'', JBool True),
                  (''utcOffset'', JNum 0)]),
         Call_boxColl sample_request]\<rparr>)"
    by (simp add: Let_def sample_fromJSON_request s)
  with ne n show ?thesis by (simp add: c b)
qed

section \<open>Validation of the contract\<close>

lemma map_of_set_prop: "map_of (set_prop kvs k v) = (map_of kvs)(k \<mapsto> v)"
  by (induction kvs) (auto simp: fun_eq_iff)

lemma map_of_Object_assign_flags:
  "map_of (Object_assign kvs [(k1, v1), (k2, v2)]) = ((map_of kvs)(k1 \<mapsto> v1))(k2 \<mapsto> v2)"
  by (simp add: Object_assign_def map_of_set_prop)

lemma fails_bind: "(\<And>a. fails (f a)) \<Longrightarrow> fails (bind m f)"
  unfolding fails_def bind_def
  by (auto split: prod.splits sum.splits)

lemma fails_bind_pair: "(\<And>a b. fails (f a b)) \<Longrightarrow> fails (bind m (\<lambda>(a, b). f a b))"
  by (rule fails_bind) (auto)

lemma fails_lift_Inl: "fails (bind (lift (Inl e)) f)"
  by (simp add: fails_def bind_def lift_def)

lemma validateContract_null: "validateContract env JNull utcOffset options = return None"
  by (simp add: validateContract_def)

lemma trigger_null_contract_fails:
  "fails (trigger env contractId JNull req st currentTime utcOffset options)"
  unfolding trigger_def validateContract_null
  apply (rule fails_bind_pair)
  apply (rule fails_bind)
  apply (simp only: bind_return)
  apply (simp only: get_serialized_def option.case)
  apply (rule fails_lift_Inl | rule fails_bind)+
  done

lemma invoke_null_contract_fails:
  "fails (invoke env contractId clauseName JNull pars st currentTime utcOffset options validateOptions)"
  unfolding invoke_def validateContract_null
  apply (rule fails_bind_pair)
  apply (rule fails_bind)
  apply (simp only: bind_return)
  apply (simp only: get_serialized_def option.case)
  apply (rule fails_lift_Inl | rule fails_bind)+
  done

text \<open>
  C9. For every \<open>utcOffset\<close> and \<open>options\<close>, \<^verbatim>\<open>validateContract(null, utcOffset, options)\<close>
  returns null itself and changes nothing; \<^verbatim>\<open>trigger\<close> and \<^verbatim>\<open>invoke\<close>, which read
  \<^verbatim>\<open>validContract.serialized\<close> unconditionally, throw whenever the contract is null.
\<close>

theorem validateContract_null_breaks_callers:
  "validateContract env JNull utcOffset validateOptions w = (Inr None, w) \<and>
   (\<exists>e w'. trigger env contractId JNull req st currentTime utcOffset options w = (Inl e, w')) \<and>
   (\<exists>e w'. invoke env contractId clauseName JNull pars st currentTime utcOffset options validateOptions w
              = (Inl e, w'))"
  using trigger_null_contract_fails [of env contractId req st currentTime utcOffset options]
    invoke_null_contract_fails [of env contractId clauseName pars st currentTime utcOffset options validateOptions]
  by (simp add: validateContract_null return_def fails_def)

text \<open>
  C10 (as amended). For a non-null contract that deserializes and passes validation, and
  a caller-supplied options object, \<^verbatim>\<open>validateContract\<close> updates that object in place: after
  the call it is \<^verbatim>\<open>Object.assign(options, {ergo: true, permitResourcesForRelationships: true})\<close>,
  so both flags are true and every other property is as before. When the contract is null,
  or deserialization or validation throws, no object of the caller is changed.
\<close>

theorem validateContract_updates_options:
  "(contract \<noteq> JNull \<and>
    fromJSON env contract
      (JObj [(''validate'', JBool False), (''acceptResourcesForRelationships'', JBool True),
             (''utcOffset'', utcOffset)]) = Inr r \<and>
    resource_validate env r (JObj [(''permitResourcesForRelationships'', JBool True)]) = Inr ()
    \<longrightarrow>
      store (snd (validateContract env contract utcOffset (Some a) w)) a =
        Object_assign (store w a)
          [(''ergo'', JBool True), (''permitResourcesForRelationships'', JBool True)] \<and>
      map_of (store (snd (validateContract env contract utcOffset (Some a) w)) a) =
        ((map_of (store w a))(''ergo'' \<mapsto> JBool True))
           (''permitResourcesForRelationships'' \<mapsto> JBool True)) \<and>
   (contract = JNull \<or>
    (\<exists>e. fromJSON env contract
      (JObj [(''validate'', JBool False), (''acceptResourcesForRelationships'', JBool True),
             (''utcOffset'', utcOffset)]) = Inl e) \<or>
    (\<exists>r' e. fromJSON env contract
      (JObj [(''validate'', JBool False), (''acceptResourcesForRelationships'', JBool True),
             (''utcOffset'', utcOffset)]) = Inr r' \<and>
      resource_validate env r' (JObj [(''permitResourcesForRelationships'', JBool True)]) = Inl e)
    \<longrightarrow> store (snd (validateContract env contract utcOffset (Some a) w)) = store w)"
  by (auto simp: validateContract_def monad_defs Object_assign_options_def map_of_Object_assign_flags
      split: sum.splits)

theorem validateContract_updates_options_witness:
  "sample_contract \<noteq> JNull \<and>
   store sample_world 0 = [] \<and>
   store (snd (validateContract sample_env sample_contract (JNum 0) (Some 0) sample_world)) 0 =
     [(''ergo'', JBool True), (''permitResourcesForRelationships'', JBool True)] \<and>
   store (snd (validateContract sample_env (JObj []) (JNum 0) (Some 0) sample_world)) =
     store sample_world"
proof -
  have n: "sample_contract \<noteq> JNull" by (simp add: sample_contract_def)
  have s: "store sample_world 0 = []" by (simp add: sample_world_def)
  have 1: "store (snd (validateContract sample_env sample_contract (JNum 0) (Some 0) sample_world)) 0 =
     Object_assign (store sample_world 0)
       [(''ergo'', JBool True), (''permitResourcesForRelationships'', JBool True)]"
    using validateContract_updates_options [of sample_contract sample_env "JNum 0" sample_contract
        0 sample_world] n
    by (simp add: sample_fromJSON_contract)
  have 2: "store (snd (validateContract sample_env (JObj []) (JNum 0) (Some 0) sample_world)) =
     store sample_world"
    using validateContract_updates_options [of "JObj []" sample_env "JNum 0" _ 0 sample_world]
    by (simp add: sample_fromJSON_contract)
  from n s 1 2 show ?thesis by (simp add: Object_assign_def)
qed

text \<open>
  A contract with no \<^verbatim>\<open>$class\<close> is not null and does not deserialize: the caller's options
  object is left as it was, without the flag \<^verbatim>\<open>ergo\<close>. And a call that returns leaves an
  options object that already holds both flags exactly as it was.
\<close>

theorem validateContract_options_counterexample:
  "JObj [] \<noteq> JNull \<and>
   store (snd (validateContract sample_env (JObj []) (JNum 0) (Some 0) sample_world)) 0 =
     store sample_world 0 \<and>
   map_of (store (snd (validateContract sample_env (JObj []) (JNum 0) (Some 0) sample_world)) 0)
     ''ergo'' = None \<and>
   sample_contract \<noteq> JNull \<and>
   fst (validateContract sample_env sample_contract (JNum 0) (Some 0)
          (sample_world\<lparr>store := (\<lambda>a. [(''ergo'', JBool True),
             (''permitResourcesForRelationships'', JBool True)])\<rparr>)) =
     Inr (Some \<lparr>serialized = sample_contract, validated_resource = sample_contract\<rparr>) \<and>
   store (snd (validateContract sample_env sample_contract (JNum 0) (Some 0)
          (sample_world\<lparr>store := (\<lambda>a. [(''ergo'', JBool True),
             (''permitResourcesForRelationships'', JBool True)])\<rparr>))) 0 =
     [(''ergo'', JBool True), (''permitResourcesForRelationships'', JBool True)]"
  by (simp add: validateContract_def monad_defs sample_env_def sample_contract_def
      sample_world_def sample_toJSON_def Object_assign_options_def Object_assign_def)

section \<open>Model files\<close>

lemmas world_defs = set_validated_def set_modelFiles_def getNamespaces_def

lemma modelManager_addModelFile_validated:
  "validated (logic (snd (modelManager_addModelFile env m d w))) = validated (logic w)"
  by (auto simp: modelManager_addModelFile_def monad_defs world_defs split: sum.splits)

lemma modelManager_updateModelFile_validated:
  "validated (logic (snd (modelManager_updateModelFile env m d w))) = validated (logic w)"
  by (auto simp: modelManager_updateModelFile_def monad_defs world_defs split: sum.splits)

lemma modelManager_deleteModelFile_validated:
  "validated (logic (snd (modelManager_deleteModelFile ns w))) = validated (logic w)"
  by (auto simp: modelManager_deleteModelFile_def monad_defs world_defs split: sum.splits)

lemma new_ModelFile_world: "snd (new_ModelFile env content name w) = w"
  by (auto simp: new_ModelFile_def monad_defs split: sum.splits)

lemma updateModel_keeps_validated:
  "validated (logic (snd (updateModel env content name w))) = validated (logic w)"
proof -
  let ?P = "\<lambda>w. validated (logic w)"
  have n: "\<And>w. ?P (snd (new_ModelFile env content name w)) = ?P w"
    by (simp add: new_ModelFile_world)
  have a: "?P (snd (bind (new_ModelFile env content name)
              (\<lambda>m. modelManager_addModelFile env m False) w)) = ?P w"
    by (rule bind_keeps [where P = ?P]) (simp_all add: n modelManager_addModelFile_validated)
  have da: "\<And>ns m w. ?P (snd (bind (modelManager_deleteModelFile ns)
              (\<lambda>_. modelManager_addModelFile env m True) w)) = ?P w"
    by (rule bind_keeps [where P = ?P])
       (simp_all add: modelManager_deleteModelFile_validated modelManager_addModelFile_validated)
  have u: "\<And>ns. ?P (snd (bind (new_ModelFile env content name)
              (\<lambda>m. if ns = getNamespace m
                    then modelManager_updateModelFile env m True
                    else bind (modelManager_deleteModelFile ns)
                           (\<lambda>_. modelManager_addModelFile env m True)) w)) = ?P w"
    by (rule bind_keeps [where P = ?P])
       (simp_all add: n da modelManager_updateModelFile_validated)
  show ?thesis
    by (simp add: updateModel_def Let_def a u return_def)
qed

lemma addModelFile_clears_validated:
  "validated (logic (snd (addModelFile env content fileName w))) = False"
  by (auto simp: addModelFile_def snd_bind return_def new_ModelFile_def lift_def bind_def
      modelManager_addModelFile_def throw_def world_defs
      split: prod.splits sum.splits if_splits)

lemma addModelFiles_loop_validated:
  "\<not> validated (logic w) \<Longrightarrow> \<not> validated (logic (snd (addModelFiles_loop env files names w)))"
proof (induction files arbitrary: names w)
  case Nil
  then show ?case by simp
next
  case (Cons c rest)
  show ?case
  proof (cases names)
    case Nil
    with Cons.prems show ?thesis by simp
  next
    case (Cons n names')
    obtain r w' where p: "addModelFile env c (slash env n) w = (r, w')"
      by (cases "addModelFile env c (slash env n) w")
    have v: "\<not> validated (logic w')"
      using addModelFile_clears_validated [of env c "slash env n" w] p by simp
    show ?thesis
      using Cons p v Cons.IH [OF v, of names'] by (cases r) simp_all
  qed
qed

lemma addModelFiles_clears_validated:
  "validated (logic (snd (addModelFiles env files names w))) = False"
  using addModelFiles_loop_validated [of "w\<lparr>logic := (logic w)\<lparr>validated := False\<rparr>\<rparr>" env files names]
  by (simp add: addModelFiles_def bind_def set_validated_def)

lemma validateModelFiles_sets_validated:
  "fst (validateModelFiles env w) = Inr () \<Longrightarrow> validated (logic (snd (validateModelFiles env w)))"
  by (auto simp: validateModelFiles_def monad_defs set_validated_def split: if_splits sum.splits)

lemma validateModelFiles_idempotent:
  "validated (logic w) \<Longrightarrow> validateModelFiles env w = (Inr (), w)"
  by (simp add: validateModelFiles_def return_def)

text \<open>
  C4. \<^verbatim>\<open>validateModelFiles\<close> sets \<open>validated\<close>; \<^verbatim>\<open>updateModel\<close> with changed content then
  replaces the registered model and leaves \<open>validated\<close> true, where \<^verbatim>\<open>addModelFile\<close> and
  \<^verbatim>\<open>addModelFiles\<close> clear it.
\<close>

theorem updateModel_after_validateModelFiles:
  "validated (logic (snd (validateModelFiles sample_env sample_world))) \<and>
   validated (logic (snd (updateModel sample_env ''namespace org.accordproject.changed'' ''base.cto''
      (snd (validateModelFiles sample_env sample_world))))) \<and>
   map getNamespace (modelFiles (logic (snd (updateModel sample_env ''namespace org.accordproject.changed'' ''base.cto''
      (snd (validateModelFiles sample_env sample_world)))))) = [''org.accordproject.changed'']"
  by (simp add: validateModelFiles_def updateModel_def monad_defs world_defs sample_env_def sample_world_def
    new_ModelFile_def modelManager_deleteModelFile_def modelManager_addModelFile_def Let_def)





text \<open>
  C6 (as amended). For a model file whose namespace is built-in, \<^verbatim>\<open>addModelFile\<close> registers
  nothing and its only effect is that \<open>validated\<close> is cleared. For any other namespace it
  clears \<open>validated\<close> and hands the file to the model manager with validation disabled,
  which registers it when its namespace is not registered yet.
\<close>

theorem addModelFile_builtin_or_register:
  "ModelFile_namespace env content (slash env fileName) = Inr ns \<longrightarrow>
     (ns \<in> set (builtInNamespaces (logic w)) \<longrightarrow>
        addModelFile env content fileName w =
          (Inr (), w\<lparr>logic := (logic w)\<lparr>validated := False\<rparr>\<rparr>)) \<and>
     (ns \<notin> set (builtInNamespaces (logic w)) \<longrightarrow>
        addModelFile env content fileName w =
          modelManager_addModelFile env
            \<lparr>getNamespace = ns, getName = slash env fileName, getDefinitions = content\<rparr> True
            (w\<lparr>logic := (logic w)\<lparr>validated := False\<rparr>\<rparr>)) \<and>
     (ns \<notin> set (builtInNamespaces (logic w)) \<and> ns \<notin> set (getNamespaces w) \<longrightarrow>
        addModelFile env content fileName w =
          (Inr (), w\<lparr>logic := (logic w)\<lparr>validated := False,
             modelFiles := modelFiles (logic w) @
               [\<lparr>getNamespace = ns, getName = slash env fileName, getDefinitions = content\<rparr>]\<rparr>\<rparr>))"
  by (auto simp: addModelFile_def monad_defs world_defs new_ModelFile_def modelManager_addModelFile_def)

theorem addModelFile_builtin_or_register_witness:
  "addModelFile sample_env ''namespace org.accordproject.base'' ''test.cto'' sample_world =
     (Inr (), sample_world\<lparr>logic := (logic sample_world)\<lparr>validated := False\<rparr>\<rparr>) \<and>
   addModelFile sample_env ''namespace org.acme.test'' ''test.cto'' sample_world =
     (Inr (), sample_world\<lparr>logic := (logic sample_world)\<lparr>validated := False,
        modelFiles := modelFiles (logic sample_world) @
          [\<lparr>getNamespace = ''org.acme.test'', getName = ''test.cto'',
            getDefinitions = ''namespace org.acme.test''\<rparr>]\<rparr>\<rparr>)"
proof -
  note m = sample_models sample_namespace sample_slash
  have b: "ModelFile_namespace sample_env ''namespace org.accordproject.base''
      (slash sample_env ''test.cto'') = Inr ''org.accordproject.base''"
    by (simp add: m)
  have n: "ModelFile_namespace sample_env ''namespace org.acme.test''
      (slash sample_env ''test.cto'') = Inr ''org.acme.test''"
    by (simp add: m)
  note tb = addModelFile_builtin_or_register [where env = sample_env and w = sample_world
      and fileName = "''test.cto''" and content = "''namespace org.accordproject.base''"
      and ns = "''org.accordproject.base''", THEN mp, OF b, THEN conjunct1, THEN mp]
  note tn = addModelFile_builtin_or_register [where env = sample_env and w = sample_world
      and fileName = "''test.cto''" and content = "''namespace org.acme.test''"
      and ns = "''org.acme.test''", THEN mp, OF n, THEN conjunct2, THEN conjunct2, THEN mp,
      unfolded sample_slash]
  have 1: "addModelFile sample_env ''namespace org.accordproject.base'' ''test.cto'' sample_world =
     (Inr (), sample_world\<lparr>logic := (logic sample_world)\<lparr>validated := False\<rparr>\<rparr>)"
    by (rule tb) (simp add: m)
  have 2: "addModelFile sample_env ''namespace org.acme.test'' ''test.cto'' sample_world =
     (Inr (), sample_world\<lparr>logic := (logic sample_world)\<lparr>validated := False,
        modelFiles := modelFiles (logic sample_world) @
          [\<lparr>getNamespace = ''org.acme.test'', getName = ''test.cto'',
            getDefinitions = ''namespace org.acme.test''\<rparr>]\<rparr>\<rparr>)"
    by (rule tn) (simp add: m)
  from 1 2 show ?thesis by (intro conjI)
qed

text \<open>With \<open>validated\<close> true beforehand, adding a model file of a built-in namespace
  changes the logic manager: \<open>validated\<close> is false afterwards.\<close>

theorem addModelFile_builtin_counterexample:
  "ModelFile_namespace sample_env ''namespace org.accordproject.base''
     (slash sample_env ''test.cto'') = Inr ''org.accordproject.base'' \<and>
   ''org.accordproject.base'' \<in>
     set (builtInNamespaces (logic (sample_world\<lparr>logic := (logic sample_world)\<lparr>validated := True\<rparr>\<rparr>))) \<and>
   validated (logic (sample_world\<lparr>logic := (logic sample_world)\<lparr>validated := True\<rparr>\<rparr>)) \<and>
   \<not> validated (logic (snd (addModelFile sample_env ''namespace org.accordproject.base''
       ''test.cto'' (sample_world\<lparr>logic := (logic sample_world)\<lparr>validated := True\<rparr>\<rparr>)))) \<and>
   snd (addModelFile sample_env ''namespace org.accordproject.base'' ''test.cto''
          (sample_world\<lparr>logic := (logic sample_world)\<lparr>validated := True\<rparr>\<rparr>)) \<noteq>
     sample_world\<lparr>logic := (logic sample_world)\<lparr>validated := True\<rparr>\<rparr>"
proof -
  let ?w = "sample_world\<lparr>logic := (logic sample_world)\<lparr>validated := True\<rparr>\<rparr>"
  have v: "\<not> validated (logic (snd (addModelFile sample_env ''namespace org.accordproject.base''
       ''test.cto'' ?w)))"
    by (simp add: addModelFile_clears_validated)
  have t: "validated (logic ?w)" by simp
  from v t have ne: "snd (addModelFile sample_env ''namespace org.accordproject.base'' ''test.cto''
          ?w) \<noteq> ?w" by metis
  from v t ne show ?thesis by (simp add: sample_namespace sample_models)
qed

section \<open>Engine: the result of trigger\<close>








section \<open>Engine: init and calculate\<close>

lemma invoke_echo:
  assumes "invoke env contractId clauseName contract pars st currentTime utcOffset options
     validateOptions w = (Inr a, w')"
  shows "clause a = contractId \<and> params a = pars"
  using assms unfolding invoke_def
  apply (elim bind_InrE)
  apply (erule lift_InrE)
  apply (simp only: split_paired_all prod.case)
  apply (elim bind_InrE)
  apply (elim return_InrE)
  apply simp
  done

text \<open>
  C3 (as amended). Every call of \<^verbatim>\<open>init\<close> is the call of \<^verbatim>\<open>invoke\<close> with
  \<open>clauseName = "init"\<close>, the caller's own \<open>params\<close>, the state
  \<^verbatim>\<open>{$class: "org.accordproject.runtime.State"}\<close> and \<open>validateOptions = null\<close>; the answer
  echoes the caller's \<open>params\<close>. \<^verbatim>\<open>calculate\<close> supplies the same default state, with
  \<open>params = {}\<close>.
\<close>

theorem init_delegates_to_invoke:
  "init env contractId contract pars currentTime utcOffset options =
     invoke env contractId ''init'' contract pars
       (JObj [(''$class'', JStr ''org.accordproject.runtime.State'')])
       currentTime utcOffset options None \<and>
   calculate env contractId name contract currentTime utcOffset options =
     bind (new_object [(''convertResourcesToId'', JBool True)]) (\<lambda>validateOptions.
       invoke env contractId name contract (JObj [])
         (JObj [(''$class'', JStr ''org.accordproject.runtime.State'')])
         currentTime utcOffset (if truthy options then options else JObj [])
         (Some validateOptions)) \<and>
   (init env contractId contract pars currentTime utcOffset options w = (Inr a, w') \<longrightarrow>
      clause a = contractId \<and> params a = pars)"
  by (auto simp: init_def calculate_def defaultState_def dest: invoke_echo)

theorem init_delegates_to_invoke_witness:
  "\<exists>a w'.
     init sample_env ''Bar'' sample_contract (JObj [(''x'', JNum 1)]) JUndefined JUndefined
       JUndefined sample_world = (Inr a, w') \<and>
     clause a = ''Bar'' \<and> params a = JObj [(''x'', JNum 1)]"
proof -
  let ?p = "init sample_env ''Bar'' sample_contract (JObj [(''x'', JNum 1)]) JUndefined JUndefined
       JUndefined sample_world"
  have e: "?p = (Inr \<lparr>clause = ''Bar'',
        response = JObj [(''$class'', JStr ''org.acme.test.Response''),
                         (''customer'', JStr ''resource:org.acme.test.Customer'')],
        state = JObj [(''$class'', JStr ''org.accordproject.runtime.State'')],
        emit = [JObj [(''$class'', JStr ''org.acme.test.Event''),
                      (''source'', JStr ''resource:org.acme.test.Customer'')]],
        params = JObj [(''x'', JNum 1)]\<rparr>, snd ?p)"
    by (rule fst_eq_pair) (rule sample_init)
  note t = init_delegates_to_invoke [of sample_env "''Bar''" sample_contract
      "JObj [(''x'', JNum 1)]" JUndefined JUndefined JUndefined "''f''" sample_world _ "snd ?p"]
  show ?thesis
    apply (intro exI conjI)
      apply (rule e)
     apply (rule t [THEN conjunct2, THEN conjunct2, THEN mp, OF e, THEN conjunct1])
    apply (rule t [THEN conjunct2, THEN conjunct2, THEN mp, OF e, THEN conjunct2])
    done
qed

text \<open>With \<open>params = {x: 1}\<close>, \<^verbatim>\<open>init\<close> differs from \<^verbatim>\<open>invoke\<close> with \<open>params = {}\<close>.\<close>

theorem init_params_counterexample:
  "init sample_env ''Bar'' sample_contract (JObj [(''x'', JNum 1)]) JUndefined JUndefined
     JUndefined sample_world \<noteq>
   invoke sample_env ''Bar'' ''init'' sample_contract (JObj []) defaultState JUndefined
     JUndefined JUndefined None sample_world"
proof
  assume "init sample_env ''Bar'' sample_contract (JObj [(''x'', JNum 1)]) JUndefined JUndefined
     JUndefined sample_world =
   invoke sample_env ''Bar'' ''init'' sample_contract (JObj []) defaultState JUndefined
     JUndefined JUndefined None sample_world"
  then have "fst (init sample_env ''Bar'' sample_contract (JObj [(''x'', JNum 1)]) JUndefined
     JUndefined JUndefined sample_world) =
   fst (invoke sample_env ''Bar'' ''init'' sample_contract (JObj []) defaultState JUndefined
     JUndefined JUndefined None sample_world)" by simp
  then show False unfolding sample_init sample_invoke_empty by simp
qed

section \<open>Engine: the script cache\<close>











































end
